theory Spec2Isabelle
  imports Complex_Main "HOL-Library.Sublist"
begin

section \<open>Multi-objective batch-elution optimization script\<close>

text \<open>
  The repository holds one Python script, \<^verbatim>\<open>optimization_multi.py\<close>. It builds an
  \<^verbatim>\<open>OptimizationProblem\<close> by a sequence of method calls, configures a
  \<^verbatim>\<open>U_NSGA3\<close> optimizer, runs it under an \<^verbatim>\<open>if __name__ == '__main__'\<close> guard
  and then prints and plots the results. The classes it calls live in an external library.

  The first part embeds the script as it is written: the objects it creates, the method
  calls it makes with their arguments, the order of its statements. The library is a
  parameter there, of which nothing is assumed. The second part gives the registration
  methods and \<^verbatim>\<open>evaluate_all\<close> the contracts of the specification; the text before
  each of those definitions says so.
\<close>

subsection \<open>Errors\<close>

text \<open>
  The error classes of the specification (sections 4 and 7), and Python's
  \<^verbatim>\<open>NameError\<close> with the name that is not defined.
\<close>

datatype error =
    DuplicateNameError
  | InvalidBoundsError
  | UnknownVariableError
  | LengthMismatchError
  | ConfigurationError
  | ProblemConfigurationError
  | EvaluationFailedError string
  | CheckpointCorruptError
  | NameError string

subsection \<open>Objects and arguments of the script\<close>

text \<open>
  \<^verbatim>\<open>Cadet()\<close> and \<^verbatim>\<open>FractionationOptimizer()\<close> are the two evaluator objects of
  the script. The only attribute the script sets on them is
  \<^verbatim>\<open>evaluate_stationarity\<close> of the simulator.
\<close>

datatype evaluator = Cadet (evaluate_stationarity: bool) | FractionationOptimizer

datatype metric = Productivity | Recovery | EluentConsumption

text \<open>The keyword arguments the script passes along with an evaluator.\<close>

record evaluator_kwargs =
  purity_required :: "real list"
  ignore_failed :: bool
  allow_empty_fractions :: bool

record individual =
  ind_id :: string
  ind_x :: "real list"

text \<open>
  What a callback does is a side effect only. The one side effect of the script's callback
  is a call of \<^verbatim>\<open>plot_fraction_signal(file_name=..., show=...)\<close> on the fractionation
  result it is given.
\<close>

datatype 's effect = Plot_fraction_signal 's string bool

text \<open>
  A method call on the problem object, with its arguments. Each of them returns with the
  object changed, or raises.
\<close>

datatype ('p, 's) call =
    Add_evaluation_object 'p
  | Add_variable string real real
  | Add_linear_constraint "string list" "real list"
  | Add_evaluator evaluator "evaluator_kwargs option"
  | Add_objective metric nat "evaluator list" bool
  | Add_callback "'s \<Rightarrow> individual \<Rightarrow> 'p \<Rightarrow> string \<Rightarrow> 's effect list" "evaluator list"

subsection \<open>The script: problem setup (lines 26 to 108)\<close>

text \<open>
  Lines 44 and 45: the simulator is constructed, then its
  \<^verbatim>\<open>evaluate_stationarity\<close> is set to true, before anything refers to it.
\<close>

definition process_simulator :: evaluator where
  "process_simulator = Cadet True"

definition frac_opt :: evaluator where
  "frac_opt = FractionationOptimizer"

definition frac_opt_kwargs :: evaluator_kwargs where
  "frac_opt_kwargs =
     \<lparr>purity_required = [0.95, 0.95], ignore_failed = False, allow_empty_fractions = False\<rparr>"

text \<open>
  The callback of lines 100 to 104. The format string renders the evaluation object with
  Python's \<^verbatim>\<open>str\<close>, which is the parameter \<open>str_of\<close>. The function has no
  \<^verbatim>\<open>return\<close>: all it yields is the plot.
\<close>

definition callback ::
  "('p \<Rightarrow> string) \<Rightarrow> 's \<Rightarrow> individual \<Rightarrow> 'p \<Rightarrow> string \<Rightarrow> 's effect list" where
  "callback str_of fractionation ind evaluation_object callbacks_dir =
     [Plot_fraction_signal fractionation
        (callbacks_dir @ ''/'' @ ind_id ind @ ''_'' @ str_of evaluation_object
           @ ''_fractionation.png'')
        False]"

text \<open>The method calls of the setup, in the order of the script.\<close>

definition setup_calls :: "('p \<Rightarrow> string) \<Rightarrow> 'p \<Rightarrow> ('p, 's) call list" where
  "setup_calls str_of process =
     [Add_evaluation_object process,
      Add_variable ''cycle_time'' 10 600,
      Add_variable ''feed_duration.time'' 10 300,
      Add_linear_constraint [''feed_duration.time'', ''cycle_time''] [1, -1],
      Add_evaluator process_simulator None,
      Add_evaluator frac_opt (Some frac_opt_kwargs),
      Add_objective Productivity 2 [process_simulator, frac_opt] False,
      Add_objective Recovery 2 [process_simulator, frac_opt] False,
      Add_objective EluentConsumption 2 [process_simulator, frac_opt] False,
      Add_callback (callback str_of) [process_simulator, frac_opt]]"

text \<open>
  What the script has asked for, read off its calls: the evaluators in the order they
  were added, and the stages each objective requires.
\<close>

fun added_evaluators :: "('p, 's) call list \<Rightarrow> evaluator list" where
  "added_evaluators [] = []"
| "added_evaluators (Add_evaluator ev kw # cs) = ev # added_evaluators cs"
| "added_evaluators (c # cs) = added_evaluators cs"

fun objective_requirements :: "('p, 's) call list \<Rightarrow> evaluator list list" where
  "objective_requirements [] = []"
| "objective_requirements (Add_objective m k req mini # cs) = req # objective_requirements cs"
| "objective_requirements (c # cs) = objective_requirements cs"

subsection \<open>The script: optimizer, guarded run, report (lines 114 to 154)\<close>

record optimizer =
  n_max_gen :: nat
  pop_size :: nat
  n_cores :: nat

record optimization_results =
  results_x :: "real list list"
  results_f :: "real list list"

text \<open>
  What the script takes from outside: the imported \<^verbatim>\<open>process\<close>, how Python
  renders it as a string, the problem object as \<^verbatim>\<open>OptimizationProblem(name)\<close>
  constructs it, what a method call does to it, the optimizer as \<^verbatim>\<open>U_NSGA3()\<close>
  constructs it, and \<^verbatim>\<open>optimizer.optimize(problem, use_checkpoint)\<close>, which returns
  results or raises. \<open>'P\<close> is the type of the problem object. Imports and constructors
  are taken to return.
\<close>

record ('p, 's, 'P) runtime =
  process :: 'p
  str_of :: "'p \<Rightarrow> string"
  construct :: "string \<Rightarrow> 'P"
  call_method :: "('p, 's) call \<Rightarrow> 'P \<Rightarrow> error + 'P"
  U_NSGA3 :: optimizer
  optimize :: "optimizer \<Rightarrow> 'P \<Rightarrow> bool \<Rightarrow> error + optimization_results"

text \<open>
  Every statement of the setup is a method call on the one object
  \<^verbatim>\<open>optimization_problem\<close>. A call that raises ends the script there.
\<close>

fun perform :: "('a \<Rightarrow> error + 'a) list \<Rightarrow> 'a \<Rightarrow> error + 'a" where
  "perform [] P = Inr P"
| "perform (c # cs) P = (case c P of Inl e \<Rightarrow> Inl e | Inr P' \<Rightarrow> perform cs P')"

definition optimization_problem :: "('p, 's, 'P) runtime \<Rightarrow> error + 'P" where
  "optimization_problem rt =
     perform (map (call_method rt) (setup_calls (str_of rt) (process rt)))
       (construct rt ''batch_elution_multi'')"

text \<open>What running the module does that can be observed, in order.\<close>

datatype event =
    Optimize optimizer bool
  | Print "real list list"
  | Plot_convergence
  | Plot_objectives

record outcome =
  events :: "event list"
  raised :: "error option"

text \<open>
  A statement of the report cells (lines 137 to 154) reads the module-level name
  \<^verbatim>\<open>optimization_results\<close>. The name is bound or not: an option. Reading an
  unbound name raises \<^verbatim>\<open>NameError\<close>, and nothing after a raise runs.
\<close>

definition report_statement ::
  "optimization_results option \<Rightarrow> outcome \<Rightarrow> (optimization_results \<Rightarrow> event) \<Rightarrow> outcome" where
  "report_statement binding out stmt =
     (case raised out of
        Some e \<Rightarrow> out
      | None \<Rightarrow>
          (case binding of
             None \<Rightarrow> out\<lparr>raised := Some (NameError ''optimization_results'')\<rparr>
           | Some r \<Rightarrow> out\<lparr>events := events out @ [stmt r]\<rparr>))"

definition report :: "optimization_results option \<Rightarrow> outcome \<Rightarrow> outcome" where
  "report binding out =
     foldl (report_statement binding) out
       [\<lambda>r. Print (results_x r),
        \<lambda>r. Print (results_f r),
        \<lambda>r. Plot_convergence,
        \<lambda>r. Plot_objectives]"

text \<open>Lines 115 to 118: three attributes of the constructed optimizer are set.\<close>

definition configure_optimizer :: "optimizer \<Rightarrow> optimizer" where
  "configure_optimizer opt = opt\<lparr>n_max_gen := 3, pop_size := 3, n_cores := 3\<rparr>"

text \<open>
  The module from top to bottom; \<open>dunder_name\<close> is the value of \<^verbatim>\<open>__name__\<close>:
  \<^verbatim>\<open>'__main__'\<close> when the file is run as a program, the module's name when it is
  imported. The guarded statement (lines 124 to 128) is the only one that binds
  \<^verbatim>\<open>optimization_results\<close>, and it passes \<^verbatim>\<open>use_checkpoint=True\<close>.
\<close>

definition run_module :: "string \<Rightarrow> ('p, 's, 'P) runtime \<Rightarrow> outcome" where
  "run_module dunder_name rt =
     (case optimization_problem rt of
        Inl e \<Rightarrow> \<lparr>events = [], raised = Some e\<rparr>
      | Inr P \<Rightarrow>
          (let opt = configure_optimizer (U_NSGA3 rt)
           in if dunder_name = ''__main__'' then
                (case optimize rt opt P True of
                   Inl e \<Rightarrow> \<lparr>events = [Optimize opt True], raised = Some e\<rparr>
                 | Inr r \<Rightarrow> report (Some r) \<lparr>events = [Optimize opt True], raised = None\<rparr>)
              else report None \<lparr>events = [], raised = None\<rparr>))"

subsection \<open>The problem object of the specification\<close>

text \<open>The data model of the specification, section 3.\<close>

record variable =
  name :: string
  lb :: real
  ub :: real

record linear_constraint =
  lc_variables :: "string list"
  lc_coefficients :: "real list"

record stage =
  stage_evaluator :: evaluator
  stage_kwargs :: "evaluator_kwargs option"

record objective =
  objective_metric :: metric
  n_objectives :: nat
  requires :: "evaluator list"
  minimize :: bool

record ('p, 's) callback_entry =
  cb_function :: "'s \<Rightarrow> individual \<Rightarrow> 'p \<Rightarrow> string \<Rightarrow> 's effect list"
  cb_requires :: "evaluator list"

record ('p, 's) problem =
  problem_name :: string
  evaluation_objects :: "'p list"
  variables :: "variable list"
  linear_constraints :: "linear_constraint list"
  evaluators :: "stage list"
  objectives :: "objective list"
  callbacks :: "('p, 's) callback_entry list"

text \<open>
  Modelled from the spec: the constructor \<^verbatim>\<open>OptimizationProblem(name)\<close> is library
  code, not in the repository. Section 4.4: the problem aggregates registry, evaluator
  chain, objective set and callbacks; a new one has none.
\<close>

definition OptimizationProblem :: "string \<Rightarrow> ('p, 's) problem" where
  "OptimizationProblem nm =
     \<lparr>problem_name = nm, evaluation_objects = [], variables = [], linear_constraints = [],
      evaluators = [], objectives = [], callbacks = []\<rparr>"

text \<open>
  Modelled from the spec: \<^verbatim>\<open>OptimizationProblem.add_evaluation_object\<close> is library
  code, not in the repository. Section 3: the problem owns the evaluation object.
\<close>

definition add_evaluation_object :: "'p \<Rightarrow> ('p, 's) problem \<Rightarrow> error + ('p, 's) problem" where
  "add_evaluation_object p P = Inr (P\<lparr>evaluation_objects := evaluation_objects P @ [p]\<rparr>)"

definition registered :: "('p, 's) problem \<Rightarrow> string \<Rightarrow> bool" where
  "registered P nm = (nm \<in> set (map name (variables P)))"

text \<open>
  Modelled from the spec: \<^verbatim>\<open>OptimizationProblem.add_variable\<close> is library code, not
  in the repository. Section 4.1 gives the two failures; section 8 says that \<open>lb >= ub\<close>
  always fails with \<^verbatim>\<open>InvalidBoundsError\<close>, so the bounds are checked first. The
  variable list keeps insertion order.
\<close>

definition add_variable ::
  "string \<Rightarrow> real \<Rightarrow> real \<Rightarrow> ('p, 's) problem \<Rightarrow> error + ('p, 's) problem" where
  "add_variable nm l u P =
     (if l \<ge> u then Inl InvalidBoundsError
      else if registered P nm then Inl DuplicateNameError
      else Inr (P\<lparr>variables := variables P @ [\<lparr>name = nm, lb = l, ub = u\<rparr>]\<rparr>))"

text \<open>
  Modelled from the spec: \<^verbatim>\<open>OptimizationProblem.add_linear_constraint\<close> is library
  code, not in the repository. Section 4.1 gives the two failures; section 8 says that an
  unregistered name always fails with \<^verbatim>\<open>UnknownVariableError\<close>, so the names are
  checked first.
\<close>

definition add_linear_constraint ::
  "string list \<Rightarrow> real list \<Rightarrow> ('p, 's) problem \<Rightarrow> error + ('p, 's) problem" where
  "add_linear_constraint nms cs P =
     (if \<not> list_all (registered P) nms then Inl UnknownVariableError
      else if length nms \<noteq> length cs then Inl LengthMismatchError
      else Inr (P\<lparr>linear_constraints :=
                    linear_constraints P @ [\<lparr>lc_variables = nms, lc_coefficients = cs\<rparr>]\<rparr>))"

definition chain :: "('p, 's) problem \<Rightarrow> evaluator list" where
  "chain P = map stage_evaluator (evaluators P)"

text \<open>
  Modelled from the spec: \<^verbatim>\<open>OptimizationProblem.add_evaluator\<close> is library code, not
  in the repository. Section 4.2: it appends a stage, and stages execute in append order.
\<close>

definition add_evaluator ::
  "evaluator \<Rightarrow> evaluator_kwargs option \<Rightarrow> ('p, 's) problem \<Rightarrow> error + ('p, 's) problem" where
  "add_evaluator ev kw P =
     Inr (P\<lparr>evaluators := evaluators P @ [\<lparr>stage_evaluator = ev, stage_kwargs = kw\<rparr>]\<rparr>)"

text \<open>
  Modelled from the spec: \<^verbatim>\<open>OptimizationProblem.add_objective\<close> is library code, not
  in the repository. Section 4.3: \<open>requires\<close> must reference stages already present in
  the evaluator chain, order-checked; section 7 classes bad objective wiring as a
  \<^verbatim>\<open>ConfigurationError\<close>. Objectives are kept in registration order.
\<close>

definition add_objective ::
  "metric \<Rightarrow> nat \<Rightarrow> evaluator list \<Rightarrow> bool \<Rightarrow> ('p, 's) problem \<Rightarrow> error + ('p, 's) problem" where
  "add_objective m k req mini P =
     (if \<not> subseq req (chain P) then Inl ConfigurationError
      else Inr (P\<lparr>objectives := objectives P @
                    [\<lparr>objective_metric = m, n_objectives = k, requires = req,
                      minimize = mini\<rparr>]\<rparr>))"

text \<open>
  Modelled from the spec: \<^verbatim>\<open>OptimizationProblem.add_callback\<close> is library code, not
  in the repository. Sections 4.4 and 9: a callback is an arbitrary function registered
  with its required stages.
\<close>

definition add_callback ::
  "('s \<Rightarrow> individual \<Rightarrow> 'p \<Rightarrow> string \<Rightarrow> 's effect list) \<Rightarrow> evaluator list
     \<Rightarrow> ('p, 's) problem \<Rightarrow> error + ('p, 's) problem" where
  "add_callback f req P =
     Inr (P\<lparr>callbacks := callbacks P @ [\<lparr>cb_function = f, cb_requires = req\<rparr>]\<rparr>)"

text \<open>What each method call of the script does to the problem of the specification.\<close>

fun register :: "('p, 's) call \<Rightarrow> ('p, 's) problem \<Rightarrow> error + ('p, 's) problem" where
  "register (Add_evaluation_object p) P = add_evaluation_object p P"
| "register (Add_variable nm l u) P = add_variable nm l u P"
| "register (Add_linear_constraint nms cs) P = add_linear_constraint nms cs P"
| "register (Add_evaluator ev kw) P = add_evaluator ev kw P"
| "register (Add_objective m k req mini) P = add_objective m k req mini P"
| "register (Add_callback f req) P = add_callback f req P"

text \<open>
  The script's setup run on the problem of the specification, and the problem it is
  expected to build, written out field by field; that the setup does build it is lemma
  \<open>setup_succeeds\<close> below.
\<close>

definition specified_problem :: "('p \<Rightarrow> string) \<Rightarrow> 'p \<Rightarrow> error + ('p, 's) problem" where
  "specified_problem sf p =
     perform (map register (setup_calls sf p)) (OptimizationProblem ''batch_elution_multi'')"

definition configured :: "('p \<Rightarrow> string) \<Rightarrow> 'p \<Rightarrow> ('p, 's) problem" where
  "configured sf p =
     \<lparr>problem_name = ''batch_elution_multi'',
      evaluation_objects = [p],
      variables = [\<lparr>name = ''cycle_time'', lb = 10, ub = 600\<rparr>,
                   \<lparr>name = ''feed_duration.time'', lb = 10, ub = 300\<rparr>],
      linear_constraints =
        [\<lparr>lc_variables = [''feed_duration.time'', ''cycle_time''],
          lc_coefficients = [1, -1]\<rparr>],
      evaluators = [\<lparr>stage_evaluator = Cadet True, stage_kwargs = None\<rparr>,
                    \<lparr>stage_evaluator = FractionationOptimizer,
                     stage_kwargs = Some frac_opt_kwargs\<rparr>],
      objectives =
        [\<lparr>objective_metric = Productivity, n_objectives = 2,
          requires = [Cadet True, FractionationOptimizer], minimize = False\<rparr>,
         \<lparr>objective_metric = Recovery, n_objectives = 2,
          requires = [Cadet True, FractionationOptimizer], minimize = False\<rparr>,
         \<lparr>objective_metric = EluentConsumption, n_objectives = 2,
          requires = [Cadet True, FractionationOptimizer], minimize = False\<rparr>],
      callbacks = [\<lparr>cb_function = callback sf,
                    cb_requires = [Cadet True, FractionationOptimizer]\<rparr>]\<rparr>"

subsection \<open>Objective set of the specification\<close>

text \<open>
  The performance metrics are external collaborators: pure functions from what the
  evaluator chain produced to a vector of floats (specification, section 6). They are the
  parameter \<open>fn\<close>; \<open>'o\<close> is the type of the stage outputs.
\<close>

text \<open>
  Modelled from the spec: the evaluation of one objective is library code, not in the
  repository. Section 4.3: the values of an objective whose \<^verbatim>\<open>minimize\<close> flag is
  false are negated, so that the optimizer always minimizes.
\<close>

definition objective_values :: "(metric \<Rightarrow> 'o \<Rightarrow> real list) \<Rightarrow> 'o \<Rightarrow> objective \<Rightarrow> real list" where
  "objective_values fn outs ob =
     (if minimize ob then fn (objective_metric ob) outs
      else map uminus (fn (objective_metric ob) outs))"

text \<open>
  Modelled from the spec: \<^verbatim>\<open>evaluate_all(stage_outputs)\<close> is library code, not in
  the repository. Section 4.3: it concatenates each objective's scalar outputs in
  registration order.
\<close>

definition evaluate_all :: "(metric \<Rightarrow> 'o \<Rightarrow> real list) \<Rightarrow> objective list \<Rightarrow> 'o \<Rightarrow> real list" where
  "evaluate_all fn obs outs = concat (map (objective_values fn outs) obs)"

section \<open>Properties\<close>

subsection \<open>The calls of the script\<close>

text \<open>
  C3: for every objective the script registers, the evaluator stages it requires appear
  in the same relative order within the evaluator chain. The chain is
  \<open>[process_simulator, frac_opt]\<close>, added in that order, and each of the three
  objectives requires \<open>[process_simulator, frac_opt]\<close>.
\<close>

theorem required_stages_in_chain_order:
  "added_evaluators (setup_calls sf p) = [process_simulator, frac_opt]
   \<and> objective_requirements (setup_calls sf p)
       = [[process_simulator, frac_opt], [process_simulator, frac_opt],
          [process_simulator, frac_opt]]
   \<and> list_all (\<lambda>req. subseq req (added_evaluators (setup_calls sf p)))
        (objective_requirements (setup_calls sf p))"
  by (simp add: setup_calls_def)

lemma configured_optimizer:
  "n_max_gen (configure_optimizer opt) = 3 \<and> pop_size (configure_optimizer opt) = 3
   \<and> n_cores (configure_optimizer opt) = 3"
  by (simp add: configure_optimizer_def)

lemma callback_only_plots:
  "callback sf fractionation ind p dir
     = [Plot_fraction_signal fractionation
          (dir @ ''/'' @ ind_id ind @ ''_'' @ sf p @ ''_fractionation.png'') False]"
  by (simp add: callback_def)

subsection \<open>The guard and the report\<close>

lemma report_unbound:
  "report None \<lparr>events = evs, raised = None\<rparr>
     = \<lparr>events = evs, raised = Some (NameError ''optimization_results'')\<rparr>"
  by (simp add: report_def report_statement_def)

lemma report_bound:
  "report (Some r) \<lparr>events = evs, raised = None\<rparr>
     = \<lparr>events = evs @ [Print (results_x r), Print (results_f r), Plot_convergence,
                        Plot_objectives],
        raised = None\<rparr>"
  by (simp add: report_def report_statement_def)

lemma main_run_reports:
  "optimization_problem rt = Inr P
   \<Longrightarrow> optimize rt (configure_optimizer (U_NSGA3 rt)) P True = Inr r
   \<Longrightarrow> run_module ''__main__'' rt
         = \<lparr>events = [Optimize (configure_optimizer (U_NSGA3 rt)) True, Print (results_x r),
                      Print (results_f r), Plot_convergence, Plot_objectives],
            raised = None\<rparr>"
  by (simp add: run_module_def report_bound)

lemma main_run_raises:
  "optimization_problem rt = Inr P
   \<Longrightarrow> optimize rt (configure_optimizer (U_NSGA3 rt)) P True = Inl e
   \<Longrightarrow> run_module ''__main__'' rt
         = \<lparr>events = [Optimize (configure_optimizer (U_NSGA3 rt)) True], raised = Some e\<rparr>"
  by (simp add: run_module_def)

lemma import_always_raises: "n \<noteq> ''__main__'' \<Longrightarrow> raised (run_module n rt) \<noteq> None"
  by (simp add: run_module_def report_unbound split: sum.splits)

text \<open>
  C8: the optimization run is guarded: \<open>optimizer.optimize\<close> is called only when the
  file is run as a program (\<open>__name__\<close> is \<open>'__main__'\<close>), never when the module is
  imported. It is called exactly when the file is run as a program and the setup before
  the guard has not raised.
\<close>

theorem optimize_only_as_main:
  "(\<exists>opt ck. Optimize opt ck \<in> set (events (run_module n rt)))
     = (n = ''__main__'' \<and> (\<exists>P. optimization_problem rt = Inr P))"
  by (auto simp: run_module_def report_unbound report_bound Let_def split: sum.splits)

text \<open>
  C10: importing the module fails with a \<open>NameError\<close>. The report statements stand
  outside the guard, \<open>optimization_results\<close> is bound only inside it, so on import, once
  the setup has run, the first of them reads an unbound name; nothing is printed or
  plotted.
\<close>

theorem import_raises_NameError:
  "n \<noteq> ''__main__'' \<Longrightarrow> optimization_problem rt = Inr P
     \<Longrightarrow> run_module n rt = \<lparr>events = [], raised = Some (NameError ''optimization_results'')\<rparr>"
  by (simp add: run_module_def report_unbound)

subsection \<open>What the setup builds from the specification's contracts\<close>

lemma setup_succeeds: "specified_problem sf p = Inr (configured sf p)"
  by (simp add: specified_problem_def setup_calls_def configured_def OptimizationProblem_def
      add_evaluation_object_def add_variable_def add_linear_constraint_def add_evaluator_def
      add_objective_def add_callback_def registered_def chain_def process_simulator_def
      frac_opt_def)

lemma register_keeps_order:
  "register c P = Inr P'
     \<Longrightarrow> chain P' = chain P @ added_evaluators [c]
         \<and> map requires (objectives P')
             = map requires (objectives P) @ objective_requirements [c]"
  by (cases c)
     (auto simp: add_evaluation_object_def add_variable_def add_linear_constraint_def
        add_evaluator_def add_objective_def add_callback_def chain_def split: if_splits)

lemma added_evaluators_Cons:
  "added_evaluators (c # cs) = added_evaluators [c] @ added_evaluators cs"
  by (cases c) simp_all

lemma objective_requirements_Cons:
  "objective_requirements (c # cs) = objective_requirements [c] @ objective_requirements cs"
  by (cases c) simp_all

lemma registration_keeps_order:
  "perform (map register cs) P = Inr P'
     \<Longrightarrow> chain P' = chain P @ added_evaluators cs
         \<and> map requires (objectives P')
             = map requires (objectives P) @ objective_requirements cs"
proof (induction cs arbitrary: P)
  case Nil
  then show ?case by simp
next
  case (Cons c cs)
  from Cons.prems obtain P1 where
    first: "register c P = Inr P1" and rest: "perform (map register cs) P1 = Inr P'"
    by (auto split: sum.splits)
  from register_keeps_order [OF first] Cons.IH [OF rest] show ?case
    by (simp add: added_evaluators_Cons [of c cs] objective_requirements_Cons [of c cs])
qed

lemma registered_variables:
  "map (\<lambda>v. (name v, lb v, ub v)) (variables (configured sf p))
     = [(''cycle_time'', 10, 600), (''feed_duration.time'', 10, 300)]"
  by (simp add: configured_def)

lemma registered_constraints:
  "map (\<lambda>c. (lc_variables c, lc_coefficients c)) (linear_constraints (configured sf p))
     = [([''feed_duration.time'', ''cycle_time''], [1, -1])]"
  by (simp add: configured_def)

lemma fractionation_stage_kwargs:
  "map stage_kwargs (evaluators (configured sf p))
     = [None,
        Some \<lparr>purity_required = [0.95, 0.95], ignore_failed = False,
              allow_empty_fractions = False\<rparr>]"
  by (simp add: configured_def frac_opt_kwargs_def)

text \<open>
  With the registration contracts of the specification as the library, the import of
  the module reaches the report statements and fails there.
\<close>

theorem import_raises_NameError_witness:
  "''optimization_multi'' \<noteq> ''__main__''
   \<and> optimization_problem
        \<lparr>process = (), str_of = (\<lambda>u. ''process''),
         construct = (OptimizationProblem :: string \<Rightarrow> (unit, unit) problem),
         call_method = register,
         U_NSGA3 = \<lparr>n_max_gen = 100, pop_size = 50, n_cores = 1\<rparr>,
         optimize = (\<lambda>opt P ck. Inr \<lparr>results_x = [], results_f = []\<rparr>)\<rparr>
       = Inr (configured (\<lambda>u. ''process'') ())
   \<and> run_module ''optimization_multi''
        \<lparr>process = (), str_of = (\<lambda>u. ''process''),
         construct = (OptimizationProblem :: string \<Rightarrow> (unit, unit) problem),
         call_method = register,
         U_NSGA3 = \<lparr>n_max_gen = 100, pop_size = 50, n_cores = 1\<rparr>,
         optimize = (\<lambda>opt P ck. Inr \<lparr>results_x = [], results_f = []\<rparr>)\<rparr>
       = \<lparr>events = [], raised = Some (NameError ''optimization_results'')\<rparr>"
proof -
  let ?rt = "\<lparr>process = (), str_of = (\<lambda>u. ''process''),
              construct = (OptimizationProblem :: string \<Rightarrow> (unit, unit) problem),
              call_method = register,
              U_NSGA3 = \<lparr>n_max_gen = 100, pop_size = 50, n_cores = 1\<rparr>,
              optimize = (\<lambda>opt P ck. Inr \<lparr>results_x = [], results_f = []\<rparr>)\<rparr>"
  have imported: "''optimization_multi'' \<noteq> ''__main__''"
    by simp
  have built: "optimization_problem ?rt = Inr (configured (\<lambda>u. ''process'') ())"
    using setup_succeeds [of "\<lambda>u. ''process''" "()"]
    by (simp add: optimization_problem_def specified_problem_def)
  from import_raises_NameError [OF imported built] imported built show ?thesis
    by simp
qed

subsection \<open>Registry contract\<close>

text \<open>
  C5: \<open>add_variable\<close> fails with \<open>InvalidBoundsError\<close> when \<open>lb \<ge> ub\<close> and with
  \<open>DuplicateNameError\<close> when the name is already registered; \<open>add_linear_constraint\<close> fails
  with \<open>UnknownVariableError\<close> when a name is unregistered and with \<open>LengthMismatchError\<close>
  when names and coefficients differ in length. Where two failures apply at once, the one
  the specification calls unconditional (invalid bounds, unknown name) is raised. Every
  registry call of the script meets the preconditions: the setup raises no error, and in
  the problem it builds the names are distinct, every lower bound is below its upper bound,
  and the constraint names two registered variables with two coefficients.
\<close>

theorem registry_contract_met_by_script:
  fixes P :: "('p, 's) problem" and p :: 'p
  shows
  "(l \<ge> u \<longrightarrow> add_variable nm l u P = Inl InvalidBoundsError)
   \<and> (l < u \<and> registered P nm \<longrightarrow> add_variable nm l u P = Inl DuplicateNameError)
   \<and> (l < u \<and> \<not> registered P nm \<longrightarrow> (\<exists>P'. add_variable nm l u P = Inr P'))
   \<and> (\<not> list_all (registered P) nms
        \<longrightarrow> add_linear_constraint nms cs P = Inl UnknownVariableError)
   \<and> (list_all (registered P) nms \<and> length nms \<noteq> length cs
        \<longrightarrow> add_linear_constraint nms cs P = Inl LengthMismatchError)
   \<and> (list_all (registered P) nms \<and> length nms = length cs
        \<longrightarrow> (\<exists>P'. add_linear_constraint nms cs P = Inr P'))
   \<and> (\<exists>P' :: ('p, 's) problem.
         specified_problem sf p = Inr P'
         \<and> distinct (map name (variables P'))
         \<and> list_all (\<lambda>v. lb v < ub v) (variables P')
         \<and> list_all (\<lambda>c. list_all (registered P') (lc_variables c)
                           \<and> length (lc_variables c) = length (lc_coefficients c))
              (linear_constraints P'))"
proof -
  have "\<exists>P' :: ('p, 's) problem.
          specified_problem sf p = Inr P'
          \<and> distinct (map name (variables P'))
          \<and> list_all (\<lambda>v. lb v < ub v) (variables P')
          \<and> list_all (\<lambda>c. list_all (registered P') (lc_variables c)
                            \<and> length (lc_variables c) = length (lc_coefficients c))
               (linear_constraints P')"
    by (rule exI [of _ "configured sf p"])
       (simp add: setup_succeeds configured_def registered_def)
  then show ?thesis
    by (simp add: add_variable_def add_linear_constraint_def)
qed

theorem registry_contract_met_by_script_witness:
  "add_variable ''cycle_time'' 600 10
        (configured (\<lambda>u. ''process'') () :: (unit, unit) problem)
     = Inl InvalidBoundsError
   \<and> add_variable ''cycle_time'' 20 500
        (configured (\<lambda>u. ''process'') () :: (unit, unit) problem)
     = Inl DuplicateNameError
   \<and> (\<exists>P'. add_variable ''flow_rate'' 20 500
               (configured (\<lambda>u. ''process'') () :: (unit, unit) problem)
             = Inr P')
   \<and> add_linear_constraint [''flow_rate''] [1]
        (configured (\<lambda>u. ''process'') () :: (unit, unit) problem)
     = Inl UnknownVariableError
   \<and> add_linear_constraint [''cycle_time''] [1, -1]
        (configured (\<lambda>u. ''process'') () :: (unit, unit) problem)
     = Inl LengthMismatchError
   \<and> (\<exists>P'. add_linear_constraint [''cycle_time''] [1]
               (configured (\<lambda>u. ''process'') () :: (unit, unit) problem)
             = Inr P')"
proof -
  let ?P = "configured (\<lambda>u. ''process'') () :: (unit, unit) problem"
  note contract = registry_contract_met_by_script
                    [where P = ?P and sf = "\<lambda>u. ''process''" and p = "()"]
  have regd: "registered ?P ''cycle_time''" "\<not> registered ?P ''flow_rate''"
    by (simp_all add: registered_def configured_def)
  have "add_variable ''cycle_time'' 600 10 ?P = Inl InvalidBoundsError"
    using contract [where l = 600 and u = 10 and nm = "''cycle_time''" and nms = "[]"
                      and cs = "[]"]
    by simp
  moreover have "add_variable ''cycle_time'' 20 500 ?P = Inl DuplicateNameError"
    using contract [where l = 20 and u = 500 and nm = "''cycle_time''" and nms = "[]"
                      and cs = "[]"] regd
    by simp
  moreover have "\<exists>P'. add_variable ''flow_rate'' 20 500 ?P = Inr P'"
    using contract [where l = 20 and u = 500 and nm = "''flow_rate''" and nms = "[]"
                      and cs = "[]"] regd
    by simp
  moreover have "add_linear_constraint [''flow_rate''] [1] ?P = Inl UnknownVariableError"
    using contract [where l = 20 and u = 500 and nm = "''cycle_time''"
                      and nms = "[''flow_rate'']" and cs = "[1]"] regd
    by simp
  moreover have "add_linear_constraint [''cycle_time''] [1, -1] ?P = Inl LengthMismatchError"
    using contract [where l = 20 and u = 500 and nm = "''cycle_time''"
                      and nms = "[''cycle_time'']" and cs = "[1, -1]"] regd
    by simp
  moreover have "\<exists>P'. add_linear_constraint [''cycle_time''] [1] ?P = Inr P'"
    using contract [where l = 20 and u = 500 and nm = "''cycle_time''"
                      and nms = "[''cycle_time'']" and cs = "[1]"] regd
    by simp
  ultimately show ?thesis by simp
qed

subsection \<open>Objective vectors\<close>

lemma evaluate_all_append:
  "evaluate_all fn (obs @ [ob]) outs = evaluate_all fn obs outs @ objective_values fn outs ob"
  by (simp add: evaluate_all_def)

lemma evaluate_all_length:
  "list_all (\<lambda>ob. length (fn (objective_metric ob) outs) = n_objectives ob) obs
     \<Longrightarrow> length (evaluate_all fn obs outs) = sum_list (map n_objectives obs)"
  by (induction obs) (simp_all add: evaluate_all_def objective_values_def)

lemma evaluate_all_maximized:
  "list_all (\<lambda>ob. \<not> minimize ob) obs
     \<Longrightarrow> evaluate_all fn obs outs
           = map uminus (concat (map (\<lambda>ob. fn (objective_metric ob) outs) obs))"
  by (induction obs) (simp_all add: evaluate_all_def objective_values_def)

text \<open>
  The length of an objective vector is the total number of scalars the metrics return;
  the declared \<open>n_objectives\<close> are not read by \<open>evaluate_all\<close>. The script
  declares two scalars for each of its three objectives.
\<close>

lemma evaluate_all_returned_length:
  "length (evaluate_all fn obs outs)
     = sum_list (map (\<lambda>ob. length (fn (objective_metric ob) outs)) obs)"
  by (induction obs) (simp_all add: evaluate_all_def objective_values_def)

lemma declared_n_objectives:
  "map n_objectives (objectives (configured sf p)) = [2, 2, 2]
   \<and> sum_list (map n_objectives (objectives (configured sf p))) = 6"
  by (simp add: configured_def)

text \<open>
  C4: all three objectives of the script are registered with \<open>minimize = False\<close>, and
  \<open>evaluate_all\<close> concatenates their outputs in registration order (productivity, recovery,
  eluent consumption) with every value negated: the optimizer minimizes the negated
  value of every component.
\<close>

theorem maximized_objectives_negated:
  "\<exists>P. specified_problem sf p = Inr P
      \<and> map objective_metric (objectives P) = [Productivity, Recovery, EluentConsumption]
      \<and> map minimize (objectives P) = [False, False, False]
      \<and> evaluate_all fn (objectives P) outs
          = map uminus (fn Productivity outs @ fn Recovery outs @ fn EluentConsumption outs)"
  by (rule exI [of _ "configured sf p"])
     (simp add: setup_succeeds configured_def evaluate_all_def objective_values_def)

end
